theory Spec2Isabelle
  imports Main "HOL-Library.Sublist"
begin

section \<open>Go strings\<close>

text \<open>
  A Go \<open>string\<close> is a sequence of bytes; it is modelled by \<^typ>\<open>string\<close>, a list of
  8-bit characters. The two functions of package \<open>strings\<close> that the transport mode parser
  calls are written out: \<open>HasPrefix\<close> compares the first \<open>len(prefix)\<close> bytes, and
  \<open>TrimPrefix\<close> removes the prefix when it is there and returns the string unchanged
  otherwise.
\<close>

definition HasPrefix :: "string \<Rightarrow> string \<Rightarrow> bool" where
  "HasPrefix s pre = (length pre \<le> length s \<and> take (length pre) s = pre)"

definition TrimPrefix :: "string \<Rightarrow> string \<Rightarrow> string" where
  "TrimPrefix s pre = (if HasPrefix s pre then drop (length pre) s else s)"

section \<open>Transport modes\<close>

text \<open>
  \<open>TransportModeKind\<close> is a named string type in the source, with three constants. A
  \<open>TransportMode\<close> value can therefore hold any string as its kind; the methods say what
  happens for a kind that is none of the three.
\<close>

type_synonym TransportModeKind = string

definition TransportModeKindSSHLib :: TransportModeKind where
  "TransportModeKindSSHLib = ''ssh-lib''"

definition TransportModeKindSSHBin :: TransportModeKind where
  "TransportModeKindSSHBin = ''ssh-bin''"

definition TransportModeKindCustom :: TransportModeKind where
  "TransportModeKindCustom = ''custom''"

record TransportMode =
  kind :: TransportModeKind
  customCommand :: string

text \<open>The constructors leave \<open>customCommand\<close> at Go's zero value, the empty string.\<close>

definition NewTransportModeSSHLib :: TransportMode where
  "NewTransportModeSSHLib = \<lparr>kind = TransportModeKindSSHLib, customCommand = ''''\<rparr>"

definition NewTransportModeSSHBin :: TransportMode where
  "NewTransportModeSSHBin = \<lparr>kind = TransportModeKindSSHBin, customCommand = ''''\<rparr>"

definition NewTransportModeCustom :: "string \<Rightarrow> TransportMode" where
  "NewTransportModeCustom cmd = \<lparr>kind = TransportModeKindCustom, customCommand = cmd\<rparr>"

datatype mode_error = InvalidTransportMode string

text \<open>
  \<open>ParseTransportMode\<close>: the \<open>switch\<close> tries its cases in order; the default case returns
  \<open>nil\<close> and the error \<open>invalid transport mode %q\<close> of the given string.
\<close>

definition ParseTransportMode :: "string \<Rightarrow> mode_error + TransportMode" where
  "ParseTransportMode spec =
     (let customPrefix = TransportModeKindCustom @ '':'' in
      if spec = TransportModeKindSSHLib then
        Inr \<lparr>kind = TransportModeKindSSHLib, customCommand = ''''\<rparr>
      else if spec = TransportModeKindSSHBin then
        Inr \<lparr>kind = TransportModeKindSSHBin, customCommand = ''''\<rparr>
      else if HasPrefix spec customPrefix then
        Inr \<lparr>kind = TransportModeKindCustom, customCommand = TrimPrefix spec customPrefix\<rparr>
      else Inl (InvalidTransportMode spec))"

definition DefaultSSHShellCommand :: string where
  "DefaultSSHShellCommand =
     ''ssh -o 'BatchMode=yes' ${NLPORT:+-p ${NLPORT}} ${NLUSER:+${NLUSER}@}${NLHOST} /bin/sh''"

text \<open>
  \<open>CustomShellCommand\<close> panics (\<open>should never be here\<close>) when the kind is none of the
  three constants: \<^term>\<open>None\<close> is the panic.
\<close>

definition CustomShellCommand :: "TransportMode \<Rightarrow> string option" where
  "CustomShellCommand m =
     (if kind m = TransportModeKindSSHLib then Some ''''
      else if kind m = TransportModeKindSSHBin then Some DefaultSSHShellCommand
      else if kind m = TransportModeKindCustom then Some (customCommand m)
      else None)"

text \<open>\<open>String\<close> prints \<open>invalid\<close> for a kind that is none of the three constants.\<close>

definition String :: "TransportMode \<Rightarrow> string" where
  "String m =
     (if kind m = TransportModeKindSSHLib \<or> kind m = TransportModeKindSSHBin then kind m
      else if kind m = TransportModeKindCustom then kind m @ '':'' @ customCommand m
      else ''invalid'')"

section \<open>The custom command transport: parameters and the world outside\<close>

definition echoMarkerConnected :: string where
  "echoMarkerConnected = ''__CONNECTED__''"

text \<open>
  \<open>ShellTransportCustomCmdParams\<close>. The logger is left out: logging changes neither the
  updates sent nor the result.
\<close>

record ShellTransportCustomCmdParams =
  ShellCommand :: string
  EnvOverride :: "string \<rightharpoonup> string"

text \<open>
  \<open>os.Getenv\<close> returns the value of the variable, which is empty when the variable is
  not present in the process environment.
\<close>

definition Getenv :: "(string \<rightharpoonup> string) \<Rightarrow> string \<Rightarrow> string" where
  "Getenv environ key = (case environ key of Some v \<Rightarrow> v | None \<Rightarrow> '''')"

text \<open>
  The function literal that \<open>doConnect\<close> hands to \<open>shell.Fields\<close>: a key of
  \<open>EnvOverride\<close> wins, also when its value is empty; any other name is read from the
  process environment.
\<close>

definition lookupVar :: "(string \<rightharpoonup> string) \<Rightarrow> (string \<rightharpoonup> string) \<Rightarrow> string \<Rightarrow> string" where
  "lookupVar envOverride environ varName =
     (case envOverride varName of Some v \<Rightarrow> v | None \<Rightarrow> Getenv environ varName)"

text \<open>
  The raw stdout of the child process is an \<open>io.Reader\<close>. It is modelled by what its
  successive \<open>Read\<close> calls return: a list of reads that return data, each with the time the
  call waited (in ticks of an abstract clock), and what the stream does once the data is
  used up: end of file, a read error, or a read that never returns (the process stays
  silent with stdout open). The same reader is read first by the scanner and then by
  \<open>io.Copy\<close>, so the reader is a value of its own, passed from one to the other.
\<close>

datatype stream_end = EndEOF nat | EndErr nat string | EndNever

record reader =
  reads :: "(nat \<times> string) list"
  rend :: stream_end

datatype read_result = ReadData string | ReadEOF | ReadError string

definition Read :: "reader \<Rightarrow> (nat \<times> read_result \<times> reader) option" where
  "Read r =
     (case reads r of
        (d, bs) # rest \<Rightarrow> Some (d, ReadData bs, r\<lparr>reads := rest\<rparr>)
      | [] \<Rightarrow>
          (case rend r of
             EndEOF d \<Rightarrow> Some (d, ReadEOF, r\<lparr>rend := EndEOF 0\<rparr>)
           | EndErr d msg \<Rightarrow> Some (d, ReadError msg, r\<lparr>rend := EndErr 0 msg\<rparr>)
           | EndNever \<Rightarrow> None))"

text \<open>
  Everything else that \<open>doConnect\<close> takes from outside the repository or from files of
  the repository that are not at hand is a field of \<open>world\<close>:
  \<^item> \<open>shell_Fields\<close> is \<open>shell.Fields\<close> of the library \<open>mvdan/sh\<close>: the error text, or
    the fields of the expanded command;
  \<^item> \<open>shellQuote\<close> is the helper of package \<open>core\<close> that quotes one field for display, and
    \<open>fmt_q\<close> is the verb \<open>%q\<close> of package \<open>fmt\<close>;
  \<^item> the four \<open>_err\<close> fields are the errors of \<open>StdinPipe\<close>, \<open>StdoutPipe\<close>,
    \<open>StderrPipe\<close> and \<open>Start\<close> of \<open>exec.Cmd\<close>, and \<open>stdin_write_err\<close> is the error of
    writing to the stdin pipe (\<^term>\<open>None\<close> is \<open>nil\<close>);
  \<^item> \<open>rawStdout\<close> is the stdout pipe; \<open>stderr_text\<close> is everything the child writes to
    stderr, and \<open>stderr_eof_after\<close> the time \<open>io.ReadAll(stderr)\<close> takes to return
    (\<^term>\<open>None\<close>: stderr is never closed, the call does not return);
  \<^item> \<open>connectionTimeout\<close> is the constant of package \<open>core\<close>, in ticks of the same clock;
    \<open>timer_wins_tie\<close> says which case the \<open>select\<close> takes when the timer fires at the
    very moment the goroutine is ready to send (Go picks one of the ready cases at random).
\<close>

record world =
  environ :: "string \<rightharpoonup> string"
  shell_Fields :: "string \<Rightarrow> (string \<Rightarrow> string) \<Rightarrow> string + string list"
  shellQuote :: "string \<Rightarrow> string"
  fmt_q :: "string \<Rightarrow> string"
  StdinPipe_err :: "string option"
  StdoutPipe_err :: "string option"
  StderrPipe_err :: "string option"
  Start_err :: "string option"
  stdin_write_err :: "string option"
  rawStdout :: reader
  stderr_text :: string
  stderr_eof_after :: "nat option"
  connectionTimeout :: nat
  timer_wins_tie :: bool

section \<open>The line scanner\<close>

text \<open>
  \<open>bufio.Scanner\<close> with its default split function \<open>bufio.ScanLines\<close>, as package
  \<open>bufio\<close> defines them. \<open>ScanLines data atEOF\<close> returns how far to advance and the token,
  or \<^term>\<open>None\<close> to ask for more data: a line ends at the first newline, a carriage
  return before the newline is dropped, and at the end of the input the rest is a last line.
\<close>

definition dropCR :: "string \<Rightarrow> string" where
  "dropCR data = (if data \<noteq> [] \<and> last data = CHR 0x0D then butlast data else data)"

fun IndexByte :: "string \<Rightarrow> char \<Rightarrow> nat option" where
  "IndexByte [] c = None"
| "IndexByte (b # bs) c = (if b = c then Some 0 else map_option Suc (IndexByte bs c))"

definition ScanLines :: "string \<Rightarrow> bool \<Rightarrow> (nat \<times> string) option" where
  "ScanLines data atEOF =
     (if atEOF \<and> data = [] then None
      else case IndexByte data (CHR 0x0A) of
             Some i \<Rightarrow> Some (i + 1, dropCR (take i data))
           | None \<Rightarrow> if atEOF then Some (length data, dropCR data) else None)"

text \<open>
  The scanner holds the bytes read and not yet consumed (\<open>buf[start:end]\<close>), the last
  token, and its sticky error. A line that fills the buffer at its largest size,
  \<open>MaxScanTokenSize\<close>, without a newline is the error \<open>ErrTooLong\<close>.
\<close>

datatype scan_error = ScanEOF | ScanTooLong | ScanReadErr string

record Scanner =
  buf :: string
  token :: string
  err :: "scan_error option"

definition MaxScanTokenSize :: nat where
  "MaxScanTokenSize = 64 * 1024"

definition NewScanner :: Scanner where
  "NewScanner = \<lparr>buf = [], token = [], err = None\<rparr>"

text \<open>
  \<open>Scan\<close>: loop until there is a token. With data in the buffer, or at the end of the
  input, the split function is asked for a token. If it has none and the input has ended,
  \<open>Scan\<close> returns false; else it reads once more from the underlying reader and tries
  again. The clock is advanced by the time each read waited. \<^term>\<open>None\<close> is a \<open>Scan\<close>
  that never returns, because the read it waits for never does.

  Each read asks for as many bytes as the buffer has free, 4096 at first, and takes all it
  gets into the buffer, whether or not a newline is among them. A read of a pipe returns at
  least one byte and at most what was asked for; in a world that keeps to this the buffered
  bytes never exceed \<open>MaxScanTokenSize\<close>, and the buffer is full at its largest size exactly
  when they reach it.
\<close>

function Scan :: "Scanner \<Rightarrow> reader \<Rightarrow> nat \<Rightarrow> (bool \<times> Scanner \<times> reader \<times> nat) option" where
  "Scan s r t =
     (case (if buf s \<noteq> [] \<or> err s \<noteq> None then ScanLines (buf s) (err s \<noteq> None) else None) of
        Some (advance, tok) \<Rightarrow> Some (True, s\<lparr>buf := drop advance (buf s), token := tok\<rparr>, r, t)
      | None \<Rightarrow>
          if err s \<noteq> None then Some (False, s\<lparr>buf := []\<rparr>, r, t)
          else if MaxScanTokenSize \<le> length (buf s) then
            Some (False, s\<lparr>err := Some ScanTooLong\<rparr>, r, t)
          else
            (case Read r of
               None \<Rightarrow> None
             | Some (d, ReadData bs, r') \<Rightarrow> Scan (s\<lparr>buf := buf s @ bs\<rparr>) r' (t + d)
             | Some (d, ReadEOF, r') \<Rightarrow> Scan (s\<lparr>err := Some ScanEOF\<rparr>) r' (t + d)
             | Some (d, ReadError msg, r') \<Rightarrow>
                 Scan (s\<lparr>err := Some (ScanReadErr msg)\<rparr>) r' (t + d)))"
  by pat_completeness auto
termination
proof (relation "measure (\<lambda>(s, r, t). 2 * length (reads r) + (if err s = None then 1 else 0))")
  show "wf (measure (\<lambda>(s, r, t). 2 * length (reads r) + (if err s = None then 1 else 0)))"
    by simp
qed (auto simp: Read_def split: list.splits stream_end.splits prod.splits if_splits)

declare Scan.simps [simp del]

text \<open>
  A \<open>Scan\<close> that returns a token has consumed at least one byte of what is buffered or
  still to be read; this is what bounds the loop of the goroutine below.
\<close>

definition pending :: "Scanner \<Rightarrow> reader \<Rightarrow> nat" where
  "pending s r = length (buf s) + sum_list (map (\<lambda>(d, bs). length bs) (reads r))"

lemma IndexByte_less: "IndexByte data c = Some i \<Longrightarrow> i < length data"
  by (induction data arbitrary: i) (auto split: if_splits)

lemma ScanLines_advance:
  "ScanLines data atEOF = Some (advance, tok) \<Longrightarrow> 0 < advance \<and> advance \<le> length data"
  by (auto simp: ScanLines_def split: if_splits option.splits dest: IndexByte_less)

lemma Read_pending:
  "Read r = Some (d, ReadData bs, r') \<Longrightarrow>
     sum_list (map (\<lambda>(d, bs). length bs) (reads r')) + length bs =
     sum_list (map (\<lambda>(d, bs). length bs) (reads r))"
  "Read r = Some (d, ReadEOF, r') \<Longrightarrow> reads r' = reads r"
  "Read r = Some (d, ReadError msg, r') \<Longrightarrow> reads r' = reads r"
  by (auto simp: Read_def split: list.splits stream_end.splits)

lemma Scan_consumes:
  "Scan s r t = Some (True, s', r', t') \<Longrightarrow> pending s' r' < pending s r"
proof (induction s r t rule: Scan.induct)
  case (1 s r t)
  note unf = Scan.simps [of s r t]
  show ?case
  proof (cases "if buf s \<noteq> [] \<or> err s \<noteq> None then ScanLines (buf s) (err s \<noteq> None) else None")
    case (Some a)
    obtain advance tok where a: "a = (advance, tok)"
      by (cases a)
    from Some a have sl: "ScanLines (buf s) (err s \<noteq> None) = Some (advance, tok)"
      by (simp split: if_splits)
    from "1.prems" Some a have "s' = s\<lparr>buf := drop advance (buf s), token := tok\<rparr>" "r' = r"
      by (simp_all add: unf)
    with ScanLines_advance [OF sl] show ?thesis
      by (auto simp: pending_def)
  next
    case None
    with "1.prems" have e: "err s = None" and small: "\<not> MaxScanTokenSize \<le> length (buf s)"
      by (auto simp: unf split: if_splits)
    from "1.prems" None e small obtain d res r1 where rd: "Read r = Some (d, res, r1)"
      by (cases "Read r") (auto simp: unf)
    show ?thesis
    proof (cases res)
      case (ReadData bs)
      with "1.prems" None e small rd
      have "Scan (s\<lparr>buf := buf s @ bs\<rparr>) r1 (t + d) = Some (True, s', r', t')"
        by (simp add: unf)
      with "1.IH"(1) [OF None _ small rd [unfolded ReadData] refl refl] e
      have "pending s' r' < pending (s\<lparr>buf := buf s @ bs\<rparr>) r1"
        by simp
      with Read_pending(1) [OF rd [unfolded ReadData]] show ?thesis
        by (simp add: pending_def)
    next
      case ReadEOF
      with "1.prems" None e small rd
      have "Scan (s\<lparr>err := Some ScanEOF\<rparr>) r1 (t + d) = Some (True, s', r', t')"
        by (simp add: unf)
      with "1.IH"(2) [OF None _ small rd [unfolded ReadEOF] refl refl] e
      have "pending s' r' < pending (s\<lparr>err := Some ScanEOF\<rparr>) r1"
        by simp
      with Read_pending(2) [OF rd [unfolded ReadEOF]] show ?thesis
        by (simp add: pending_def)
    next
      case (ReadError msg)
      with "1.prems" None e small rd
      have "Scan (s\<lparr>err := Some (ScanReadErr msg)\<rparr>) r1 (t + d) = Some (True, s', r', t')"
        by (simp add: unf)
      with "1.IH"(3) [OF None _ small rd [unfolded ReadError] refl refl] e
      have "pending s' r' < pending (s\<lparr>err := Some (ScanReadErr msg)\<rparr>) r1"
        by simp
      with Read_pending(3) [OF rd [unfolded ReadError]] show ?thesis
        by (simp add: pending_def)
    qed
  qed
qed

section \<open>The handshake\<close>

text \<open>
  The goroutine of \<open>doConnect\<close>: \<open>for scanner.Scan()\<close> compares each line with the
  marker. At the marker it leaves the loop with the reader as the scanner left it; when
  \<open>Scan\<close> returns false it leaves with the scanner, whose error says why.
\<close>

datatype wait_result = GotMarker reader nat | NoMarker Scanner reader nat | Stuck

function waitForMarker :: "Scanner \<Rightarrow> reader \<Rightarrow> nat \<Rightarrow> wait_result" where
  "waitForMarker s r t =
     (case Scan s r t of
        None \<Rightarrow> Stuck
      | Some (ok, s', r', t') \<Rightarrow>
          if ok then
            (let line = token s' in
             if line = echoMarkerConnected then GotMarker r' t'
             else waitForMarker s' r' t')
          else NoMarker s' r' t')"
  by pat_completeness auto
termination
proof (relation "measure (\<lambda>(s, r, t). pending s r)")
  show "wf (measure (\<lambda>(s, r, t). pending s r))"
    by simp
qed (auto dest: Scan_consumes)

declare waitForMarker.simps [simp del]

text \<open>
  The errors of \<open>doConnect\<close>, one constructor for each place that sets \<open>res.Err\<close>, with
  the values its message is formatted from:
  \<^item> \<open>ErrParsingShellCommand cause command\<close>: \<open>parsing shell command %q\<close>, annotating the
    error of \<open>shell.Fields\<close>;
  \<^item> \<open>ErrCommandEmpty\<close>: \<open>command is empty\<close>;
  \<^item> \<open>ErrGettingStdinPipe\<close>, \<open>ErrGettingStdoutPipe\<close>, \<open>ErrGettingStderrPipe\<close>,
    \<open>ErrStartingShell\<close>, \<open>ErrWritingConnectionMarker\<close>: the annotated error of the call;
  \<^item> \<open>ErrReadingStdout\<close>: \<open>reading from stdout while waiting for connection marker\<close>,
    annotating the scanner's error;
  \<^item> \<open>ErrFailedToConnect sshCmdDebug stderrText\<close>:
    \<open>failed to connect using external command "%s": %s\<close>;
  \<^item> \<open>ErrTimeout\<close>: \<open>timeout waiting for SSH connection marker\<close>.
\<close>

datatype conn_error =
    ErrParsingShellCommand string string
  | ErrCommandEmpty
  | ErrGettingStdinPipe string
  | ErrGettingStdoutPipe string
  | ErrGettingStderrPipe string
  | ErrStartingShell string
  | ErrWritingConnectionMarker string
  | ErrReadingStdout scan_error
  | ErrFailedToConnect string string
  | ErrTimeout

text \<open>
  What is done to the child process, oldest first: it is started with its arguments, bytes
  are written to its stdin, its stdin is closed, its context is cancelled (which kills it).
\<close>

datatype proc_event = ProcStart "string list" | StdinWrite string | StdinClose | CtxCancel

text \<open>
  \<open>ShellConnCustomCmd\<close>: \<open>cmd\<close> is the command line of the process; \<open>stdout\<close> is the
  client side of the pipe that the goroutine fills, as the bytes its reads deliver in
  order; \<open>stderr\<close> is the stderr pipe of the process, as the bytes it delivers;
  \<open>history\<close> records what was done through \<open>stdin\<close> and \<open>ctxCancel\<close>.
\<close>

record ShellConnCustomCmd =
  cmd :: "string list"
  stdout :: string
  stderr :: string
  history :: "proc_event list"

record ShellConnDebugInfo =
  Message :: string

record ShellConnResult =
  Conn :: "ShellConnCustomCmd option"
  Err :: "conn_error option"

record ShellConnUpdate =
  DebugInfo :: "ShellConnDebugInfo option"
  Result :: "ShellConnResult option"

text \<open>
  One run of \<open>doConnect\<close>: the updates sent on \<open>resCh\<close> in order, what was done to the
  child process, and the value returned.
\<close>

record connect_run =
  updates :: "ShellConnUpdate list"
  events :: "proc_event list"
  res :: ShellConnResult

definition makeDebugInfo :: "string \<Rightarrow> ShellConnDebugInfo" where
  "makeDebugInfo message = \<lparr>Message = message\<rparr>"

definition debugUpdate :: "string \<Rightarrow> ShellConnUpdate" where
  "debugUpdate message = \<lparr>DebugInfo = Some (makeDebugInfo message), Result = None\<rparr>"

text \<open>
  The deferred function of \<open>doConnect\<close> runs at every return: it sends one more update,
  which carries the result.
\<close>

definition deliver :: "ShellConnUpdate list \<Rightarrow> proc_event list \<Rightarrow> ShellConnResult \<Rightarrow> connect_run" where
  "deliver sent evs r =
     \<lparr>updates = sent @ [\<lparr>DebugInfo = None, Result = Some r\<rparr>], events = evs, res = r\<rparr>"

definition failed :: "conn_error \<Rightarrow> ShellConnResult" where
  "failed e = \<lparr>Conn = None, Err = Some e\<rparr>"

text \<open>The loop that builds \<open>sshCmdDebug\<close>: the quoted fields, separated by single spaces.\<close>

fun sshCmdDebugBuilder :: "(string \<Rightarrow> string) \<Rightarrow> nat \<Rightarrow> string list \<Rightarrow> string \<Rightarrow> string" where
  "sshCmdDebugBuilder q i [] sb = sb"
| "sshCmdDebugBuilder q i (v # vs) sb =
     sshCmdDebugBuilder q (i + 1) vs ((if i > 0 then sb @ '' '' else sb) @ q v)"

text \<open>
  \<open>Scanner.Err\<close> returns \<open>nil\<close> when the scanner stopped at the end of the input.
\<close>

definition Scanner_Err :: "Scanner \<Rightarrow> scan_error option" where
  "Scanner_Err s = (case err s of Some ScanEOF \<Rightarrow> None | e \<Rightarrow> e)"

text \<open>
  \<open>io.Copy(clientStdoutW, rawStdout)\<close> writes to the pipe whatever further reads of the
  raw stdout return, until the end of file or an error.
\<close>

definition io_Copy :: "reader \<Rightarrow> string" where
  "io_Copy r = concat (map snd (reads r))"

text \<open>
  The goroutine, by what it sends on \<open>connErrCh\<close> and when: \<open>nil\<close> at the marker, and
  then it copies the raw stdout to the client's pipe; the scanner's error; or, at the end
  of stdout without a marker, the error made from all of stderr, once \<open>io.ReadAll\<close> has
  returned. It sends nothing while a read does not return.
\<close>

datatype goroutine_send = SendsNil nat string | SendsErr nat conn_error | NeverSends

definition goroutine :: "world \<Rightarrow> string \<Rightarrow> goroutine_send" where
  "goroutine w sshCmdDebug =
     (case waitForMarker NewScanner (rawStdout w) 0 of
        GotMarker r t \<Rightarrow> SendsNil t (io_Copy r)
      | NoMarker s r t \<Rightarrow>
          (case Scanner_Err s of
             Some e \<Rightarrow> SendsErr t (ErrReadingStdout e)
           | None \<Rightarrow>
               (case stderr_eof_after w of
                  Some d \<Rightarrow> SendsErr (t + d) (ErrFailedToConnect sshCmdDebug (stderr_text w))
                | None \<Rightarrow> NeverSends))
      | Stuck \<Rightarrow> NeverSends)"

text \<open>
  The \<open>select\<close> takes the timer's case when the timer fires before the goroutine is ready
  to send.
\<close>

definition timer_first :: "world \<Rightarrow> nat \<Rightarrow> bool" where
  "timer_first w ts = (connectionTimeout w < ts \<or> (ts = connectionTimeout w \<and> timer_wins_tie w))"

definition doConnect :: "ShellTransportCustomCmdParams \<Rightarrow> world \<Rightarrow> connect_run" where
  \<open>doConnect p w =
     (case shell_Fields w (ShellCommand p) (lookupVar (EnvOverride p) (environ w)) of
        Inl e \<Rightarrow> deliver [] [] (failed (ErrParsingShellCommand e (ShellCommand p)))
      | Inr cmdFields \<Rightarrow>
          if length cmdFields = 0 then deliver [] [] (failed ErrCommandEmpty)
          else
            let sshCmdDebug = sshCmdDebugBuilder (shellQuote w) 0 cmdFields [];
                u1 = debugUpdate
                  (''Trying to connect using external command: '' @ fmt_q w sshCmdDebug)
            in
            case StdinPipe_err w of
              Some e \<Rightarrow> deliver [u1] [] (failed (ErrGettingStdinPipe e))
            | None \<Rightarrow>
            case StdoutPipe_err w of
              Some e \<Rightarrow> deliver [u1] [] (failed (ErrGettingStdoutPipe e))
            | None \<Rightarrow>
            case StderrPipe_err w of
              Some e \<Rightarrow> deliver [u1] [] (failed (ErrGettingStderrPipe e))
            | None \<Rightarrow>
            case Start_err w of
              Some e \<Rightarrow> deliver [u1] [] (failed (ErrStartingShell e))
            | None \<Rightarrow>
            let u2 = debugUpdate
                  (''Command started, writing "echo '' @ echoMarkerConnected @
                   ''", waiting for it in stdout'');
                started = [ProcStart cmdFields]
            in
            case stdin_write_err w of
              Some e \<Rightarrow> deliver [u1, u2] started (failed (ErrWritingConnectionMarker e))
            | None \<Rightarrow>
            let evs = started @ [StdinWrite (''echo '' @ echoMarkerConnected @ ''\<newline>'')]
            in
            case goroutine w sshCmdDebug of
              NeverSends \<Rightarrow> deliver [u1, u2] evs (failed ErrTimeout)
            | SendsErr ts e \<Rightarrow>
                if timer_first w ts then deliver [u1, u2] evs (failed ErrTimeout)
                else deliver [u1, u2] evs (failed e)
            | SendsNil ts out \<Rightarrow>
                if timer_first w ts then deliver [u1, u2] evs (failed ErrTimeout)
                else
                  deliver [u1, u2, debugUpdate ''Got the marker, connected successfully''] evs
                    \<lparr>Conn = Some \<lparr>cmd = cmdFields, stdout = out, stderr = stderr_text w,
                                  history = evs\<rparr>,
                     Err = None\<rparr>)\<close>

text \<open>
  \<open>Close\<close> calls \<open>s.stdin.Close()\<close> and then \<open>s.ctxCancel()\<close>; the error that closing
  stdin may return is not looked at.
\<close>

definition stdin_Close :: "ShellConnCustomCmd \<Rightarrow> ShellConnCustomCmd" where
  "stdin_Close c = c\<lparr>history := history c @ [StdinClose]\<rparr>"

definition ctxCancel :: "ShellConnCustomCmd \<Rightarrow> ShellConnCustomCmd" where
  "ctxCancel c = c\<lparr>history := history c @ [CtxCancel]\<rparr>"

definition Close :: "ShellConnCustomCmd \<Rightarrow> ShellConnCustomCmd" where
  "Close c = ctxCancel (stdin_Close c)"

section \<open>Notions used to state the properties of the handshake\<close>

text \<open>
  \<open>reaches_wait p w cmdFields\<close>: the command expands to the fields \<open>cmdFields\<close>, not
  none, and the pipes, the start of the process and the write of the marker command all
  succeed, so that \<open>doConnect\<close> gets to its \<open>select\<close>.
\<close>

definition reaches_wait :: "ShellTransportCustomCmdParams \<Rightarrow> world \<Rightarrow> string list \<Rightarrow> bool" where
  "reaches_wait p w cmdFields =
     (shell_Fields w (ShellCommand p) (lookupVar (EnvOverride p) (environ w)) = Inr cmdFields
      \<and> cmdFields \<noteq> []
      \<and> StdinPipe_err w = None \<and> StdoutPipe_err w = None \<and> StderrPipe_err w = None
      \<and> Start_err w = None \<and> stdin_write_err w = None)"

text \<open>When the goroutine is ready to send on \<open>connErrCh\<close>, if ever.\<close>

definition send_time :: "goroutine_send \<Rightarrow> nat option" where
  "send_time g =
     (case g of SendsNil t out \<Rightarrow> Some t | SendsErr t e \<Rightarrow> Some t | NeverSends \<Rightarrow> None)"

text \<open>
  The connect wait elapses first when the goroutine is never ready to send, or the timer
  fires before it is.
\<close>

definition wait_elapses_first :: "world \<Rightarrow> string \<Rightarrow> bool" where
  "wait_elapses_first w sshCmdDebug =
     (case send_time (goroutine w sshCmdDebug) of None \<Rightarrow> True | Some ts \<Rightarrow> timer_first w ts)"

text \<open>
  When the scanner finds the end of stdout with no marker line before it, if it does.
\<close>

definition stdout_eof_at :: "world \<Rightarrow> nat option" where
  "stdout_eof_at w =
     (case waitForMarker NewScanner (rawStdout w) 0 of
        NoMarker s r t \<Rightarrow> if Scanner_Err s = None then Some t else None
      | GotMarker r t \<Rightarrow> None
      | Stuck \<Rightarrow> None)"

section \<open>Variable expansion\<close>

text \<open>
  Modelled from the spec: \<open>shell.Fields\<close>, which parses and expands the command, belongs
  to the library \<open>mvdan/sh\<close> and is not among the sources. The specification names the
  constructs: \<open>${X}\<close> yields the value or empty; \<open>${X:-d}\<close> yields \<open>d\<close> iff \<open>X\<close> is unset
  or empty; \<open>${X:+a}\<close> yields \<open>a\<close> iff \<open>X\<close> is set and non-empty; a command substitution is
  not expanded (the expansion fails, \<^term>\<open>None\<close>); any other text stands for itself. A
  word is a list of such parts, and \<open>d\<close> and \<open>a\<close> are words again, as in
  \<open>${NLUSER:+${NLUSER}@}\<close>. The variables are looked up through a function from names to
  values in which the empty value stands for an unset variable, as the function that
  \<open>doConnect\<close> passes does.
\<close>

datatype word_part =
    Lit string
  | Param string
  | ParamDefault string "word_part list"
  | ParamAlt string "word_part list"
  | CmdSubst string

fun expand :: "(string \<Rightarrow> string) \<Rightarrow> word_part \<Rightarrow> string option"
  and expand_word :: "(string \<Rightarrow> string) \<Rightarrow> word_part list \<Rightarrow> string option" where
  "expand env (Lit s) = Some s"
| "expand env (Param x) = Some (env x)"
| "expand env (ParamDefault x d) = (if env x = '''' then expand_word env d else Some (env x))"
| "expand env (ParamAlt x a) = (if env x \<noteq> '''' then expand_word env a else Some '''')"
| "expand env (CmdSubst c) = None"
| "expand_word env [] = Some ''''"
| "expand_word env (part # parts) =
     (case expand env part of
        None \<Rightarrow> None
      | Some s \<Rightarrow> (case expand_word env parts of None \<Rightarrow> None | Some rest \<Rightarrow> Some (s @ rest)))"

text \<open>
  A variable is unset or empty, for the command, when its override is the empty string,
  or when it has no override and the process environment has no value or an empty value
  for it; otherwise its value is that of the override, or of the environment when there is
  no override.
\<close>

definition unset_or_empty :: "(string \<rightharpoonup> string) \<Rightarrow> (string \<rightharpoonup> string) \<Rightarrow> string \<Rightarrow> bool" where
  "unset_or_empty envOverride procEnv x =
     (case envOverride x of
        Some v \<Rightarrow> v = ''''
      | None \<Rightarrow> procEnv x = None \<or> procEnv x = Some '''')"

definition value_of :: "(string \<rightharpoonup> string) \<Rightarrow> (string \<rightharpoonup> string) \<Rightarrow> string \<Rightarrow> string option" where
  "value_of envOverride procEnv x =
     (case envOverride x of Some v \<Rightarrow> Some v | None \<Rightarrow> procEnv x)"

text \<open>
  The shape of the updates of one run: debug updates only, and then one update that
  carries the result returned, in which exactly one of \<open>Conn\<close> and \<open>Err\<close> is set.
\<close>

definition terminal_shape :: "connect_run \<Rightarrow> bool" where
  "terminal_shape run =
     (\<exists>dbg r. updates run = dbg @ [\<lparr>DebugInfo = None, Result = Some r\<rparr>]
        \<and> (\<forall>u \<in> set dbg. Result u = None \<and> DebugInfo u \<noteq> None)
        \<and> (Conn r = None) \<noteq> (Err r = None)
        \<and> res run = r)"

section \<open>Example worlds\<close>

text \<open>
  Concrete parameters and worlds on which the properties below are run. The command is
  taken as a single field when it is not empty, and nothing is quoted; every call succeeds;
  the child writes \<open>Permission denied\<close> to stderr; the connect wait is 5 ticks. The raw
  stdout and the time after which stderr is closed are left open.
\<close>

definition example_world :: "reader \<Rightarrow> nat option \<Rightarrow> world" where
  "example_world out stderr_eof =
     \<lparr>environ = Map.empty,
      shell_Fields = (\<lambda>s env. Inr (if s = [] then [] else [s])),
      shellQuote = (\<lambda>s. s), fmt_q = (\<lambda>s. s),
      StdinPipe_err = None, StdoutPipe_err = None, StderrPipe_err = None,
      Start_err = None, stdin_write_err = None,
      rawStdout = out,
      stderr_text = ''Permission denied'', stderr_eof_after = stderr_eof,
      connectionTimeout = 5, timer_wins_tie = False\<rparr>"

definition example_params :: "string \<Rightarrow> ShellTransportCustomCmdParams" where
  "example_params c = \<lparr>ShellCommand = c, EnvOverride = Map.empty\<rparr>"

section \<open>Properties of the transport modes\<close>

lemmas kind_defs =
  TransportModeKindSSHLib_def TransportModeKindSSHBin_def TransportModeKindCustom_def

lemma HasPrefix_iff_prefix: "HasPrefix s pre \<longleftrightarrow> prefix pre s"
proof
  assume "HasPrefix s pre"
  then have "s = pre @ drop (length pre) s"
    by (metis HasPrefix_def append_take_drop_id)
  then show "prefix pre s"
    by (metis prefixI)
next
  assume "prefix pre s"
  then show "HasPrefix s pre"
    by (auto simp: HasPrefix_def prefix_def)
qed

lemma HasPrefix_append: "HasPrefix (pre @ c) pre"
  by (simp add: HasPrefix_def)

lemma TrimPrefix_append: "TrimPrefix (pre @ c) pre = c"
  by (simp add: TrimPrefix_def HasPrefix_append)

lemma ParseTransportMode_custom:
  "ParseTransportMode (''custom:'' @ c) = Inr \<lparr>kind = ''custom'', customCommand = c\<rparr>"
proof -
  have "HasPrefix (''custom:'' @ c) ''custom:''"
    by (rule HasPrefix_append)
  moreover have "TrimPrefix (''custom:'' @ c) ''custom:'' = c"
    by (rule TrimPrefix_append)
  ultimately show ?thesis
    by (simp add: ParseTransportMode_def Let_def kind_defs)
qed

text \<open>
  C3. \<open>ParseTransportMode\<close> accepts exactly \<open>ssh-lib\<close>, \<open>ssh-bin\<close> and the strings that
  start with \<open>custom:\<close>; for the latter the rest of the string becomes the custom command.
  Every other string gives the error and no transport mode.
\<close>

theorem ParseTransportMode_accepts_exactly:
  "((\<exists>m. ParseTransportMode s = Inr m) \<longleftrightarrow>
      s = ''ssh-lib'' \<or> s = ''ssh-bin'' \<or> prefix ''custom:'' s)
   \<and> ParseTransportMode ''ssh-lib'' = Inr \<lparr>kind = ''ssh-lib'', customCommand = ''''\<rparr>
   \<and> ParseTransportMode ''ssh-bin'' = Inr \<lparr>kind = ''ssh-bin'', customCommand = ''''\<rparr>
   \<and> ParseTransportMode (''custom:'' @ c) = Inr \<lparr>kind = ''custom'', customCommand = c\<rparr>
   \<and> (\<not> (s = ''ssh-lib'' \<or> s = ''ssh-bin'' \<or> prefix ''custom:'' s) \<longrightarrow>
        ParseTransportMode s = Inl (InvalidTransportMode s))"
proof -
  have acc: "(\<exists>m. ParseTransportMode s = Inr m) \<longleftrightarrow>
      s = ''ssh-lib'' \<or> s = ''ssh-bin'' \<or> prefix ''custom:'' s"
    by (simp add: ParseTransportMode_def Let_def kind_defs HasPrefix_iff_prefix)
  have lib: "ParseTransportMode ''ssh-lib'' = Inr \<lparr>kind = ''ssh-lib'', customCommand = ''''\<rparr>"
    by (simp add: ParseTransportMode_def Let_def kind_defs)
  have bin: "ParseTransportMode ''ssh-bin'' = Inr \<lparr>kind = ''ssh-bin'', customCommand = ''''\<rparr>"
    by (simp add: ParseTransportMode_def Let_def kind_defs)
  have rej: "\<not> (s = ''ssh-lib'' \<or> s = ''ssh-bin'' \<or> prefix ''custom:'' s) \<longrightarrow>
        ParseTransportMode s = Inl (InvalidTransportMode s)"
    by (simp add: ParseTransportMode_def Let_def kind_defs HasPrefix_iff_prefix)
  from acc lib bin ParseTransportMode_custom rej show ?thesis
    by blast
qed

theorem ParseTransportMode_accepts_exactly_witness:
  "\<not> (''telnet'' = ''ssh-lib'' \<or> ''telnet'' = ''ssh-bin'' \<or> prefix ''custom:'' ''telnet'')
   \<and> ParseTransportMode ''telnet'' = Inl (InvalidTransportMode ''telnet'')
   \<and> ParseTransportMode ''custom:sh -i'' = Inr \<lparr>kind = ''custom'', customCommand = ''sh -i''\<rparr>"
  using ParseTransportMode_accepts_exactly [of "''telnet''" "''sh -i''"]
  by simp

text \<open>
  C4. For a transport mode of kind \<open>ssh-bin\<close>, \<open>CustomShellCommand\<close> returns the
  default ssh command, character for character; for the kind \<open>ssh-lib\<close> it returns the
  empty string, and for the kind \<open>custom\<close> the stored custom command.
\<close>

theorem CustomShellCommand_by_kind:
  "CustomShellCommand \<lparr>kind = ''ssh-bin'', customCommand = c\<rparr> =
     Some ''ssh -o 'BatchMode=yes' ${NLPORT:+-p ${NLPORT}} ${NLUSER:+${NLUSER}@}${NLHOST} /bin/sh''
   \<and> CustomShellCommand \<lparr>kind = ''ssh-lib'', customCommand = c\<rparr> = Some ''''
   \<and> CustomShellCommand \<lparr>kind = ''custom'', customCommand = c\<rparr> = Some c"
  by (simp add: CustomShellCommand_def kind_defs DefaultSSHShellCommand_def)

lemma String_of_parsed: "ParseTransportMode s = Inr m \<Longrightarrow> String m = s"
proof -
  assume p: "ParseTransportMode s = Inr m"
  consider "s = ''ssh-lib''" | "s = ''ssh-bin''"
    | "s \<noteq> ''ssh-lib''" "s \<noteq> ''ssh-bin''" "HasPrefix s ''custom:''"
    using p by (auto simp: ParseTransportMode_def Let_def kind_defs split: if_splits)
  then show ?thesis
  proof cases
    case 1
    with p show ?thesis
      by (auto simp: ParseTransportMode_def Let_def kind_defs String_def)
  next
    case 2
    with p show ?thesis
      by (auto simp: ParseTransportMode_def Let_def kind_defs String_def)
  next
    case 3
    from 3(3) have s: "s = ''custom:'' @ drop (length ''custom:'') s"
      by (metis HasPrefix_def append_take_drop_id)
    from p 3 have "m = \<lparr>kind = ''custom'', customCommand = drop (length ''custom:'') s\<rparr>"
      by (auto simp: ParseTransportMode_def Let_def kind_defs TrimPrefix_def)
    then have "String m = ''custom:'' @ drop (length ''custom:'') s"
      by (simp add: String_def kind_defs)
    with s show ?thesis
      by simp
  qed
qed

text \<open>
  C7. Parsing and printing are inverse to each other: a string that \<open>ParseTransportMode\<close>
  accepts is printed back by \<open>String\<close> as it was, and each of the modes built by the
  three constructors is parsed back from its \<open>String\<close> with the same kind and the same
  custom command.
\<close>

theorem parse_print_round_trip:
  "(ParseTransportMode s = Inr m \<longrightarrow> String m = s)
   \<and> ParseTransportMode (String NewTransportModeSSHLib) = Inr NewTransportModeSSHLib
   \<and> ParseTransportMode (String NewTransportModeSSHBin) = Inr NewTransportModeSSHBin
   \<and> ParseTransportMode (String (NewTransportModeCustom c)) = Inr (NewTransportModeCustom c)"
proof -
  have lib: "ParseTransportMode (String NewTransportModeSSHLib) = Inr NewTransportModeSSHLib"
    by (simp add: String_def NewTransportModeSSHLib_def ParseTransportMode_def Let_def kind_defs)
  have bin: "ParseTransportMode (String NewTransportModeSSHBin) = Inr NewTransportModeSSHBin"
    by (simp add: String_def NewTransportModeSSHBin_def ParseTransportMode_def Let_def kind_defs)
  have "String (NewTransportModeCustom c) = ''custom:'' @ c"
    by (simp add: String_def NewTransportModeCustom_def kind_defs)
  then have cus: "ParseTransportMode (String (NewTransportModeCustom c)) = Inr (NewTransportModeCustom c)"
    using ParseTransportMode_custom [of c] by (simp add: NewTransportModeCustom_def kind_defs)
  from String_of_parsed lib bin cus show ?thesis
    by blast
qed

theorem parse_print_round_trip_witness:
  "ParseTransportMode ''custom:sh -i'' = Inr \<lparr>kind = ''custom'', customCommand = ''sh -i''\<rparr>
   \<and> String \<lparr>kind = ''custom'', customCommand = ''sh -i''\<rparr> = ''custom:sh -i''"
  using parse_print_round_trip [of "''custom:sh -i''" "\<lparr>kind = ''custom'', customCommand = ''sh -i''\<rparr>" "''x''"]
    ParseTransportMode_custom [of "''sh -i''"]
  by simp

section \<open>Properties of the custom command transport\<close>

text \<open>
  C6. \<open>Close\<close> closes the stdin of the connection first and cancels the context of the
  process after that, in this order, whatever the connection; it has one path only, and it
  touches nothing else.
\<close>

theorem Close_stdin_then_cancel:
  "history (Close c) = history c @ [StdinClose, CtxCancel]
   \<and> cmd (Close c) = cmd c \<and> stdout (Close c) = stdout c \<and> stderr (Close c) = stderr c"
  by (simp add: Close_def stdin_Close_def ctxCancel_def)

lemmas eval_defs = example_world_def example_params_def doConnect_def goroutine_def
  waitForMarker.simps Scan.simps ScanLines_def Read_def NewScanner_def dropCR_def
  echoMarkerConnected_def MaxScanTokenSize_def io_Copy_def timer_first_def deliver_def Let_def
  Scanner_Err_def failed_def debugUpdate_def makeDebugInfo_def

text \<open>
  C9. When the expansion of the command yields no field, \<open>doConnect\<close> fails with the
  error \<open>command is empty\<close>: nothing has been done to any child process, no process is
  started, and the only update is the one that carries this error. The transport mode parsed
  from the bare string \<open>custom:\<close> has the empty command.
\<close>

theorem doConnect_empty_command:
  "ParseTransportMode ''custom:'' = Inr (NewTransportModeCustom '''')
   \<and> CustomShellCommand (NewTransportModeCustom '''') = Some ''''
   \<and> (shell_Fields w (ShellCommand p) (lookupVar (EnvOverride p) (environ w)) = Inr [] \<longrightarrow>
        res (doConnect p w) = \<lparr>Conn = None, Err = Some ErrCommandEmpty\<rparr>
        \<and> events (doConnect p w) = []
        \<and> updates (doConnect p w) =
            [\<lparr>DebugInfo = None, Result = Some \<lparr>Conn = None, Err = Some ErrCommandEmpty\<rparr>\<rparr>])"
proof -
  have "ParseTransportMode ''custom:'' = Inr (NewTransportModeCustom '''')"
    using ParseTransportMode_custom [of "''''"] by (simp add: NewTransportModeCustom_def kind_defs)
  moreover have "CustomShellCommand (NewTransportModeCustom '''') = Some ''''"
    by (simp add: CustomShellCommand_def NewTransportModeCustom_def kind_defs)
  ultimately show ?thesis
    by (simp add: doConnect_def deliver_def failed_def)
qed

theorem doConnect_empty_command_witness:
  "shell_Fields (example_world \<lparr>reads = [], rend = EndNever\<rparr> None) (ShellCommand (example_params ''''))
      (lookupVar (EnvOverride (example_params '''')) (environ (example_world \<lparr>reads = [], rend = EndNever\<rparr> None))) = Inr []
   \<and> res (doConnect (example_params '''') (example_world \<lparr>reads = [], rend = EndNever\<rparr> None)) =
       \<lparr>Conn = None, Err = Some ErrCommandEmpty\<rparr>
   \<and> events (doConnect (example_params '''') (example_world \<lparr>reads = [], rend = EndNever\<rparr> None)) = []"
  using doConnect_empty_command
    [of "example_world \<lparr>reads = [], rend = EndNever\<rparr> None" "example_params ''''"]
  by (simp add: example_world_def example_params_def)

lemma deliver_terminal:
  "\<forall>u \<in> set sent. Result u = None \<and> DebugInfo u \<noteq> None \<Longrightarrow> (Conn r = None) \<noteq> (Err r = None) \<Longrightarrow>
   terminal_shape (deliver sent evs r)"
  by (simp add: deliver_def terminal_shape_def)

lemma doConnect_terminal: "terminal_shape (doConnect p w)"
  by (simp add: doConnect_def Let_def deliver_terminal failed_def debugUpdate_def
      split: sum.split option.split goroutine_send.split)

text \<open>
  C8. Every run of \<open>doConnect\<close> sends exactly one update with a result, as its last
  update, on every path; in that result exactly one of \<open>Conn\<close> and \<open>Err\<close> is set; the
  updates before it carry debug information and no result.
\<close>

theorem doConnect_one_terminal_update:
  "\<exists>dbg r. updates (doConnect p w) = dbg @ [\<lparr>DebugInfo = None, Result = Some r\<rparr>]
     \<and> (\<forall>u \<in> set dbg. Result u = None \<and> DebugInfo u \<noteq> None)
     \<and> (Conn r = None) \<noteq> (Err r = None)
     \<and> res (doConnect p w) = r"
  using doConnect_terminal [of p w] by (simp add: terminal_shape_def)

lemma example_connect_updates:
  "length (updates (doConnect (example_params ''sh'')
      (example_world \<lparr>reads = [(1, ''__CONNECTED__\<newline>'')], rend = EndNever\<rparr> None))) = 4"
  by (simp add: eval_defs)

theorem doConnect_one_terminal_update_witness:
  "\<exists>dbg r. updates (doConnect (example_params ''sh'')
        (example_world \<lparr>reads = [(1, ''__CONNECTED__\<newline>'')], rend = EndNever\<rparr> None)) =
      dbg @ [\<lparr>DebugInfo = None, Result = Some r\<rparr>]
     \<and> length dbg = 3
     \<and> (\<forall>u \<in> set dbg. Result u = None \<and> DebugInfo u \<noteq> None)
     \<and> (Conn r = None) \<noteq> (Err r = None)"
proof -
  let ?run = "doConnect (example_params ''sh'')
        (example_world \<lparr>reads = [(1, ''__CONNECTED__\<newline>'')], rend = EndNever\<rparr> None)"
  from doConnect_one_terminal_update [of "example_params ''sh''"
      "example_world \<lparr>reads = [(1, ''__CONNECTED__\<newline>'')], rend = EndNever\<rparr> None"]
  obtain dbg r where u: "updates ?run = dbg @ [\<lparr>DebugInfo = None, Result = Some r\<rparr>]"
    and d: "\<forall>u \<in> set dbg. Result u = None \<and> DebugInfo u \<noteq> None"
    and r: "(Conn r = None) \<noteq> (Err r = None)"
    by auto
  from u example_connect_updates have "length dbg = 3"
    by simp
  with u d r show ?thesis
    by blast
qed

subsection \<open>Timeout and end of stdout\<close>

lemma doConnect_at_wait:
  assumes "reaches_wait p w cmdFields"
  shows "res (doConnect p w) =
     (case goroutine w (sshCmdDebugBuilder (shellQuote w) 0 cmdFields []) of
        NeverSends \<Rightarrow> failed ErrTimeout
      | SendsErr ts e \<Rightarrow> if timer_first w ts then failed ErrTimeout else failed e
      | SendsNil ts out \<Rightarrow>
          if timer_first w ts then failed ErrTimeout
          else \<lparr>Conn = Some \<lparr>cmd = cmdFields, stdout = out, stderr = stderr_text w,
                   history = [ProcStart cmdFields,
                     StdinWrite (''echo '' @ echoMarkerConnected @ ''\<newline>'')]\<rparr>,
                Err = None\<rparr>)"
  using assms
  by (simp add: reaches_wait_def doConnect_def Let_def deliver_def split: goroutine_send.split)

lemma timeout_when_wait_elapses_first:
  assumes "reaches_wait p w cmdFields"
    and "wait_elapses_first w (sshCmdDebugBuilder (shellQuote w) 0 cmdFields [])"
  shows "res (doConnect p w) = \<lparr>Conn = None, Err = Some ErrTimeout\<rparr>"
  using assms(2)
  by (auto simp: doConnect_at_wait [OF assms(1)] wait_elapses_first_def send_time_def failed_def
      split: goroutine_send.splits)

lemma goroutine_at_eof:
  assumes "stdout_eof_at w = Some t" and "stderr_eof_after w = Some d"
  shows "goroutine w dbg = SendsErr (t + d) (ErrFailedToConnect dbg (stderr_text w))"
  using assms
  by (auto simp: stdout_eof_at_def goroutine_def split: wait_result.splits if_splits)

lemma stderr_error_when_drained_in_time:
  assumes "reaches_wait p w cmdFields"
    and "stdout_eof_at w = Some t" and "stderr_eof_after w = Some d"
    and "t + d < connectionTimeout w"
  shows "res (doConnect p w) =
     \<lparr>Conn = None,
      Err = Some (ErrFailedToConnect (sshCmdDebugBuilder (shellQuote w) 0 cmdFields [])
                   (stderr_text w))\<rparr>"
  using assms(4)
  by (simp add: doConnect_at_wait [OF assms(1)] goroutine_at_eof [OF assms(2,3)]
      timer_first_def failed_def)

text \<open>
  C2, as the code has it. Let \<open>doConnect\<close> have started the process and written the
  marker command. If the connect wait elapses before the goroutine is ready to send (or it
  never is), \<open>doConnect\<close> fails with the timeout error. If stdout ends before a marker
  line, and reading stderr to its end is over before the connect wait elapses, it fails with
  the error that carries the text of stderr. In both cases there is no \<open>Conn\<close>.
\<close>

theorem doConnect_timeout_or_stderr:
  "reaches_wait p w cmdFields \<Longrightarrow>
   (wait_elapses_first w (sshCmdDebugBuilder (shellQuote w) 0 cmdFields []) \<longrightarrow>
      res (doConnect p w) = \<lparr>Conn = None, Err = Some ErrTimeout\<rparr>)
   \<and> (stdout_eof_at w = Some t \<and> stderr_eof_after w = Some d \<and> t + d < connectionTimeout w \<longrightarrow>
      res (doConnect p w) =
        \<lparr>Conn = None,
         Err = Some (ErrFailedToConnect (sshCmdDebugBuilder (shellQuote w) 0 cmdFields [])
                      (stderr_text w))\<rparr>)"
  using timeout_when_wait_elapses_first stderr_error_when_drained_in_time
  by blast

lemma example_reaches_wait:
  "c \<noteq> [] \<Longrightarrow> reaches_wait (example_params c) (example_world out e) [c]"
  by (simp add: reaches_wait_def example_params_def example_world_def)

lemma example_silent_wait_elapses:
  "wait_elapses_first (example_world \<lparr>reads = [], rend = EndNever\<rparr> None) dbg"
  by (simp add: wait_elapses_first_def send_time_def eval_defs)

lemma example_eof_at:
  "stdout_eof_at (example_world \<lparr>reads = [(1, ''no route\<newline>'')], rend = EndEOF 1\<rparr> e) = Some 2"
  by (simp add: stdout_eof_at_def eval_defs)

theorem doConnect_timeout_or_stderr_witness:
  "reaches_wait (example_params ''sh'') (example_world \<lparr>reads = [], rend = EndNever\<rparr> None) [''sh'']
   \<and> wait_elapses_first (example_world \<lparr>reads = [], rend = EndNever\<rparr> None) ''sh''
   \<and> res (doConnect (example_params ''sh'') (example_world \<lparr>reads = [], rend = EndNever\<rparr> None)) =
        \<lparr>Conn = None, Err = Some ErrTimeout\<rparr>
   \<and> reaches_wait (example_params ''sh'')
        (example_world \<lparr>reads = [(1, ''no route\<newline>'')], rend = EndEOF 1\<rparr> (Some 1)) [''sh'']
   \<and> stdout_eof_at (example_world \<lparr>reads = [(1, ''no route\<newline>'')], rend = EndEOF 1\<rparr> (Some 1)) = Some 2
   \<and> stderr_eof_after (example_world \<lparr>reads = [(1, ''no route\<newline>'')], rend = EndEOF 1\<rparr> (Some 1)) = Some 1
   \<and> 2 + 1 < connectionTimeout (example_world \<lparr>reads = [(1, ''no route\<newline>'')], rend = EndEOF 1\<rparr> (Some 1))
   \<and> res (doConnect (example_params ''sh'')
        (example_world \<lparr>reads = [(1, ''no route\<newline>'')], rend = EndEOF 1\<rparr> (Some 1))) =
        \<lparr>Conn = None, Err = Some (ErrFailedToConnect ''sh'' ''Permission denied'')\<rparr>"
proof -
  let ?w1 = "example_world \<lparr>reads = [], rend = EndNever\<rparr> None"
  let ?w2 = "example_world \<lparr>reads = [(1, ''no route\<newline>'')], rend = EndEOF 1\<rparr> (Some 1)"
  have r1: "reaches_wait (example_params ''sh'') ?w1 [''sh'']"
    by (rule example_reaches_wait) simp
  have r2: "reaches_wait (example_params ''sh'') ?w2 [''sh'']"
    by (rule example_reaches_wait) simp
  have q1: "sshCmdDebugBuilder (shellQuote ?w1) 0 [''sh''] [] = ''sh''"
    by (simp add: example_world_def)
  have q2: "sshCmdDebugBuilder (shellQuote ?w2) 0 [''sh''] [] = ''sh''"
    by (simp add: example_world_def)
  have e2: "stderr_eof_after ?w2 = Some 1" "2 + 1 < connectionTimeout ?w2"
    "stderr_text ?w2 = ''Permission denied''"
    by (simp_all add: example_world_def)
  from doConnect_timeout_or_stderr [OF r1, of 0 0] example_silent_wait_elapses [of "''sh''"] q1
  have a: "res (doConnect (example_params ''sh'') ?w1) = \<lparr>Conn = None, Err = Some ErrTimeout\<rparr>"
    by simp
  from doConnect_timeout_or_stderr [OF r2, of 2 1] example_eof_at [of "Some 1"] q2 e2
  have b: "res (doConnect (example_params ''sh'') ?w2) =
        \<lparr>Conn = None, Err = Some (ErrFailedToConnect ''sh'' ''Permission denied'')\<rparr>"
    by simp
  from r1 r2 a b e2 example_silent_wait_elapses [of "''sh''"] example_eof_at [of "Some 1"]
  show ?thesis
    by simp
qed

text \<open>
  C2, as stated, asks for the error with the text of stderr whenever stdout ends before the
  connect wait elapses. Here stdout ends after 1 tick, the wait is 5 ticks, and stderr stays
  open for 100 ticks more: the goroutine is still in \<open>io.ReadAll(stderr)\<close> when the timer
  fires, and the error is the timeout, which carries nothing of stderr.
\<close>

theorem stdout_eof_before_timeout_counterexample:
  "reaches_wait (example_params ''sh'') (example_world \<lparr>reads = [], rend = EndEOF 1\<rparr> (Some 100)) [''sh'']
   \<and> stdout_eof_at (example_world \<lparr>reads = [], rend = EndEOF 1\<rparr> (Some 100)) = Some 1
   \<and> 1 < connectionTimeout (example_world \<lparr>reads = [], rend = EndEOF 1\<rparr> (Some 100))
   \<and> stderr_text (example_world \<lparr>reads = [], rend = EndEOF 1\<rparr> (Some 100)) = ''Permission denied''
   \<and> res (doConnect (example_params ''sh'') (example_world \<lparr>reads = [], rend = EndEOF 1\<rparr> (Some 100))) =
        \<lparr>Conn = None, Err = Some ErrTimeout\<rparr>"
proof -
  let ?w = "example_world \<lparr>reads = [], rend = EndEOF 1\<rparr> (Some 100)"
  have "reaches_wait (example_params ''sh'') ?w [''sh'']"
    by (rule example_reaches_wait) simp
  moreover have "stdout_eof_at ?w = Some 1"
    by (simp add: stdout_eof_at_def eval_defs)
  moreover have "1 < connectionTimeout ?w" "stderr_text ?w = ''Permission denied''"
    by (simp_all add: example_world_def)
  moreover have "res (doConnect (example_params ''sh'') ?w) = \<lparr>Conn = None, Err = Some ErrTimeout\<rparr>"
    by (simp add: eval_defs)
  ultimately show ?thesis
    by simp
qed

subsection \<open>Bytes after the marker\<close>

text \<open>
  Whenever the pipes, the start and the write succeed, what is done to the child is the
  start and then the write of the marker command, whatever the handshake brings.
\<close>

lemma doConnect_writes_marker_command:
  assumes "reaches_wait p w cmdFields"
  shows "events (doConnect p w) = [ProcStart cmdFields, StdinWrite ''echo __CONNECTED__\<newline>'']"
  using assms
  by (simp add: reaches_wait_def doConnect_def Let_def deliver_def echoMarkerConnected_def
      split: goroutine_send.split)

text \<open>
  C1. The process is started and \<open>echo __CONNECTED__\<close> with a newline is written to its
  stdin. When one read of stdout returns the marker line together with the bytes
  \<open>hello\<close> and a newline that follow it, these bytes stay in the buffer of the scanner:
  \<open>io.Copy\<close> reads from the raw stdout, not from the scanner, and the client gets nothing of
  them. When the same bytes come with the next read, the client gets them.
\<close>

theorem doConnect_drops_bytes_read_with_marker:
  "res (doConnect (example_params ''sh'')
      (example_world \<lparr>reads = [(1, ''__CONNECTED__\<newline>hello\<newline>'')], rend = EndNever\<rparr> None)) =
     \<lparr>Conn = Some \<lparr>cmd = [''sh''], stdout = '''', stderr = ''Permission denied'',
        history = [ProcStart [''sh''], StdinWrite ''echo __CONNECTED__\<newline>'']\<rparr>,
      Err = None\<rparr>
   \<and> res (doConnect (example_params ''sh'')
      (example_world \<lparr>reads = [(1, ''__CONNECTED__\<newline>''), (1, ''hello\<newline>'')], rend = EndNever\<rparr> None)) =
     \<lparr>Conn = Some \<lparr>cmd = [''sh''], stdout = ''hello\<newline>'', stderr = ''Permission denied'',
        history = [ProcStart [''sh''], StdinWrite ''echo __CONNECTED__\<newline>'']\<rparr>,
      Err = None\<rparr>"
  by (simp add: eval_defs)

section \<open>Properties of the variable expansion\<close>

lemma lookupVar_empty_iff: "lookupVar ov env x = '''' \<longleftrightarrow> unset_or_empty ov env x"
  by (auto simp: lookupVar_def Getenv_def unset_or_empty_def split: option.splits)

lemma lookupVar_value:
  "\<not> unset_or_empty ov env x \<Longrightarrow> value_of ov env x = Some (lookupVar ov env x)"
  by (auto simp: lookupVar_def Getenv_def unset_or_empty_def value_of_def split: option.splits)

text \<open>
  C5. With the lookup function of \<open>doConnect\<close>, for every variable \<open>x\<close>: \<open>${x:-d}\<close>
  yields \<open>d\<close> when \<open>x\<close> is unset or empty and the value of \<open>x\<close> otherwise; \<open>${x:+a}\<close>
  yields \<open>a\<close> when \<open>x\<close> is set and not empty, and the empty string otherwise; \<open>${x}\<close>
  yields the value, or the empty string; a command substitution is not expanded, and
  literal text stands for itself. An entry of \<open>EnvOverride\<close> wins over the process
  environment, and an empty entry makes the variable count as unset or empty whatever the
  process environment holds.
\<close>

theorem expansion_of_variables:
  "expand (lookupVar ov env) (ParamDefault x d) =
     (if unset_or_empty ov env x then expand_word (lookupVar ov env) d else value_of ov env x)
   \<and> expand (lookupVar ov env) (ParamAlt x a) =
     (if unset_or_empty ov env x then Some '''' else expand_word (lookupVar ov env) a)
   \<and> expand (lookupVar ov env) (Param x) =
     (if unset_or_empty ov env x then Some '''' else value_of ov env x)
   \<and> expand (lookupVar ov env) (CmdSubst c) = None
   \<and> expand (lookupVar ov env) (Lit s) = Some s
   \<and> (ov x = Some v \<longrightarrow> lookupVar ov env x = v \<and> value_of ov env x = Some v)
   \<and> (ov x = None \<longrightarrow> lookupVar ov env x = Getenv env x \<and> value_of ov env x = env x)
   \<and> (ov x = Some '''' \<longrightarrow> unset_or_empty ov env x)"
proof -
  have 1: "expand (lookupVar ov env) (ParamDefault x d) =
     (if unset_or_empty ov env x then expand_word (lookupVar ov env) d else value_of ov env x)"
    using lookupVar_empty_iff [of ov env x] lookupVar_value [of ov env x] by simp
  have 2: "expand (lookupVar ov env) (ParamAlt x a) =
     (if unset_or_empty ov env x then Some '''' else expand_word (lookupVar ov env) a)"
    using lookupVar_empty_iff [of ov env x] by simp
  have 3: "expand (lookupVar ov env) (Param x) =
     (if unset_or_empty ov env x then Some '''' else value_of ov env x)"
    using lookupVar_empty_iff [of ov env x] lookupVar_value [of ov env x] by simp
  have 4: "ov x = Some v \<longrightarrow> lookupVar ov env x = v \<and> value_of ov env x = Some v"
    by (simp add: lookupVar_def value_of_def)
  have 5: "ov x = None \<longrightarrow> lookupVar ov env x = Getenv env x \<and> value_of ov env x = env x"
    by (simp add: lookupVar_def value_of_def)
  have 6: "ov x = Some '''' \<longrightarrow> unset_or_empty ov env x"
    by (simp add: unset_or_empty_def)
  from 1 2 3 4 5 6 show ?thesis
    by simp
qed

theorem expansion_of_variables_witness:
  "[''NLPORT'' \<mapsto> ''''] ''NLPORT'' = Some ''''
   \<and> unset_or_empty [''NLPORT'' \<mapsto> ''''] [''NLPORT'' \<mapsto> ''22''] ''NLPORT''
   \<and> expand (lookupVar [''NLPORT'' \<mapsto> ''''] [''NLPORT'' \<mapsto> ''22''])
        (ParamAlt ''NLPORT'' [Lit ''-p '', Param ''NLPORT'']) = Some ''''
   \<and> expand (lookupVar [''NLPORT'' \<mapsto> ''''] [''NLPORT'' \<mapsto> ''22''])
        (ParamDefault ''NLPORT'' [Lit ''2222'']) = Some ''2222''
   \<and> Map.empty ''NLPORT'' = (None :: string option)
   \<and> lookupVar Map.empty [''NLPORT'' \<mapsto> ''22''] ''NLPORT'' = ''22''
   \<and> expand (lookupVar Map.empty [''NLPORT'' \<mapsto> ''22''])
        (ParamAlt ''NLPORT'' [Lit ''-p '', Param ''NLPORT'']) = Some ''-p 22''"
  using expansion_of_variables [of "[''NLPORT'' \<mapsto> '''']" "[''NLPORT'' \<mapsto> ''22'']" "''NLPORT''"
      "[Lit ''2222'']" "[Lit ''-p '', Param ''NLPORT'']" "''''" "''''" "''''"]
    expansion_of_variables [of Map.empty "[''NLPORT'' \<mapsto> ''22'']" "''NLPORT''"
      "[Lit ''2222'']" "[Lit ''-p '', Param ''NLPORT'']" "''''" "''''" "''''"]
  by (simp add: unset_or_empty_def lookupVar_def Getenv_def)

end
